theory Spec2Isabelle
  imports Main
begin

section \<open>JavaScript values and errors\<close>

text \<open>
  The client of \<^verbatim>\<open>plugins/pagerduty/src/api/client.ts\<close> reads decoded JSON bodies and
  builds one object literal. Both are values of \<open>js\<close>. A finite number is held as the
  decimal text that the language's number-to-string conversion gives for it, which is also
  the text \<^verbatim>\<open>JSON.stringify\<close> writes. An object is the list of its own properties in
  insertion order. Strings are lists of code units below 256.
\<close>

datatype js =
    JUndefined
  | JNull
  | JBool bool
  | JNum string
  | JStr string
  | JArr "js list"
  | JObj "(string \<times> js) list"

text \<open>
  \<^verbatim>\<open>class UnauthorizedError extends Error {}\<close> and \<^verbatim>\<open>class NotFoundError extends Error {}\<close>
  are constructed without arguments; \<^verbatim>\<open>new Error(message)\<close> carries its message.
  \<open>SyntaxError\<close> is what \<^verbatim>\<open>response.json()\<close> rejects with on a body that is not JSON,
  \<open>TypeError\<close> what the language raises on a property read of \<^verbatim>\<open>null\<close> or
  \<^verbatim>\<open>undefined\<close> and on a call of something that is not a function.
\<close>

datatype error =
    UnauthorizedError
  | NotFoundError
  | Error string
  | SyntaxError
  | TypeError

text \<open>
  Property read \<^verbatim>\<open>v.k\<close>, also the read that the destructuring
  \<^verbatim>\<open>const { k } = v\<close> performs. The names this client reads (\<^verbatim>\<open>errors\<close>,
  \<^verbatim>\<open>services\<close>, \<^verbatim>\<open>service\<close>, \<^verbatim>\<open>incidents\<close>, \<^verbatim>\<open>change_events\<close>,
  \<^verbatim>\<open>oncalls\<close>) are no property of an array, string, number or boolean, so the read
  gives \<^verbatim>\<open>undefined\<close> there.
\<close>

fun member :: "js \<Rightarrow> string \<Rightarrow> error + js" where
  "member JUndefined k = Inl TypeError"
| "member JNull k = Inl TypeError"
| "member (JObj kvs) k = Inr (case map_of kvs k of None \<Rightarrow> JUndefined | Some v \<Rightarrow> v)"
| "member (JBool b) k = Inr JUndefined"
| "member (JNum n) k = Inr JUndefined"
| "member (JStr s) k = Inr JUndefined"
| "member (JArr xs) k = Inr JUndefined"

text \<open>
  The method call \<^verbatim>\<open>v.map(f)\<close>: only an array has a callable \<^verbatim>\<open>map\<close>. A decoded
  JSON object may have an own property \<^verbatim>\<open>map\<close>, which is never a function.
\<close>

fun array_map :: "js \<Rightarrow> (js \<Rightarrow> js) \<Rightarrow> error + js list" where
  "array_map (JArr xs) f = Inr (map f xs)"
| "array_map JUndefined f = Inl TypeError"
| "array_map JNull f = Inl TypeError"
| "array_map (JBool b) f = Inl TypeError"
| "array_map (JNum n) f = Inl TypeError"
| "array_map (JStr s) f = Inl TypeError"
| "array_map (JObj kvs) f = Inl TypeError"

text \<open>
  String conversion and \<^verbatim>\<open>Array.prototype.join\<close>: \<^verbatim>\<open>undefined\<close> and \<^verbatim>\<open>null\<close>
  elements contribute the empty string, and an array converts to its elements joined by a
  comma. A plain object converts through its \<^verbatim>\<open>toString\<close> method: the inherited one
  gives \<^verbatim>\<open>[object Object]\<close>, but a decoded object with an own property \<^verbatim>\<open>toString\<close>
  hides it by a value that cannot be called, \<^verbatim>\<open>valueOf\<close> gives no primitive either, and
  the conversion raises a \<open>TypeError\<close>. The elements are converted from left to right.
\<close>

fun ToString :: "js \<Rightarrow> error + string"
  and join :: "js list \<Rightarrow> string \<Rightarrow> error + string" where
  "ToString JUndefined = Inr ''undefined''"
| "ToString JNull = Inr ''null''"
| "ToString (JBool b) = Inr (if b then ''true'' else ''false'')"
| "ToString (JNum n) = Inr n"
| "ToString (JStr s) = Inr s"
| "ToString (JArr xs) = join xs '',''"
| "ToString (JObj kvs) =
     (case map_of kvs ''toString'' of
        None \<Rightarrow> Inr ''[object Object]''
      | Some v \<Rightarrow> Inl TypeError)"
| "join [] sep = Inr []"
| "join [x] sep = (if x = JUndefined \<or> x = JNull then Inr [] else ToString x)"
| "join (x # y # ys) sep =
     (case (if x = JUndefined \<or> x = JNull then Inr [] else ToString x) of
        Inl e \<Rightarrow> Inl e
      | Inr t \<Rightarrow>
          (case join (y # ys) sep of
             Inl e \<Rightarrow> Inl e
           | Inr u \<Rightarrow> Inr (t @ sep @ u)))"

text \<open>Decimal text of a non-negative integer, as a template literal renders a status.\<close>

definition digit_char :: "nat \<Rightarrow> char" where
  "digit_char d = char_of (48 + d)"

function show_nat :: "nat \<Rightarrow> string" where
  "show_nat n = (if n < 10 then [digit_char n] else show_nat (n div 10) @ [digit_char (n mod 10)])"
  by pat_completeness auto
termination
  by (relation "measure (\<lambda>n. n)") auto

declare show_nat.simps [simp del]

section \<open>Requests, responses and the injected collaborators\<close>

text \<open>
  \<open>RequestOptions\<close> is the options object handed to \<^verbatim>\<open>fetch\<close>, with the three
  properties the client sets; a GET has no \<^verbatim>\<open>body\<close> property.
\<close>

record RequestOptions =
  method' :: string
  headers :: "(string \<times> string) list"
  body :: "string option"

text \<open>
  Of a response the client reads \<^verbatim>\<open>status\<close>, \<^verbatim>\<open>ok\<close> and \<^verbatim>\<open>json()\<close>.
  \<open>json\<close> is the outcome of \<^verbatim>\<open>response.json()\<close>: the decoded body, or \<open>None\<close>
  when the body is not well-formed JSON and the promise rejects with a syntax error.
\<close>

record Response =
  status :: nat
  json :: "js option"

text \<open>\<^verbatim>\<open>Response.ok\<close> as the Fetch standard defines it: the status is in 200..299.\<close>

definition ok :: "Response \<Rightarrow> bool" where
  "ok response \<longleftrightarrow> 200 \<le> status response \<and> status response \<le> 299"

text \<open>
  A call of \<^verbatim>\<open>fetchApi.fetch(url, options)\<close> is an effect. The state threaded through the
  client is the list of calls made so far; \<open>fetch\<close> gives the transport's answer to a
  call, which may depend on the calls before it, and is a rejection (\<open>Inl\<close>) or a
  response. \<open>getBaseUrl\<close> is \<^verbatim>\<open>discoveryApi.getBaseUrl\<close>, \<open>eventsBaseUrl\<close> the optional
  configured address of the events endpoint.
\<close>

type_synonym call = "string \<times> RequestOptions"

record ClientApiConfig =
  eventsBaseUrl :: "string option"
  getBaseUrl :: "string \<Rightarrow> error + string"
  fetch :: "call list \<Rightarrow> string \<Rightarrow> RequestOptions \<Rightarrow> error + Response"

text \<open>
  Modelled from the spec: the type \<^verbatim>\<open>TriggerAlarmRequest\<close>, which is declared in
  \<^verbatim>\<open>./types\<close>. \<^verbatim>\<open>triggerAlarm\<close> reads these four fields of it; the spec has the user
  name as an optional field, the other three are strings.
\<close>

record TriggerAlarmRequest =
  integrationKey :: string
  source :: string
  description :: string
  userName :: "string option"

section \<open>The client\<close>

definition commonGetServiceParams :: string where
  "commonGetServiceParams = ''time_zone=UTC&include[]=integrations&include[]=escalation_policies''"

definition default_eventsBaseUrl :: string where
  "default_eventsBaseUrl = ''https://events.pagerduty.com/v2''"

text \<open>\<^verbatim>\<open>PagerDutyClient.fromConfig\<close>, with \<^verbatim>\<open>configApi.getOptionalString\<close> as a function.\<close>

definition fromConfig ::
  "(string \<Rightarrow> string option) \<Rightarrow> (string \<Rightarrow> error + string) \<Rightarrow>
   (call list \<Rightarrow> string \<Rightarrow> RequestOptions \<Rightarrow> error + Response) \<Rightarrow> ClientApiConfig" where
  "fromConfig getOptionalString discoveryApi fetchApi =
     \<lparr>eventsBaseUrl =
        Some (case getOptionalString ''pagerDuty.eventsBaseUrl'' of
                None \<Rightarrow> default_eventsBaseUrl | Some u \<Rightarrow> u),
      getBaseUrl = discoveryApi,
      fetch = fetchApi\<rparr>"

text \<open>The private \<^verbatim>\<open>request\<close>: one call of the transport, then the status classifier.\<close>

definition request ::
  "ClientApiConfig \<Rightarrow> string \<Rightarrow> RequestOptions \<Rightarrow> call list \<Rightarrow> (error + Response) \<times> call list" where
  "request config url options calls =
     (case fetch config calls url options of
        Inl e \<Rightarrow> (Inl e, calls @ [(url, options)])
      | Inr response \<Rightarrow>
          (if status response = 401 then Inl UnauthorizedError
           else if status response = 404 then Inl NotFoundError
           else if \<not> ok response then
             (case json response of
                None \<Rightarrow> Inl SyntaxError
              | Some payload \<Rightarrow>
                  (case member payload ''errors'' of
                     Inl e \<Rightarrow> Inl e
                   | Inr errs \<Rightarrow>
                       (case array_map errs (\<lambda>error. error) of
                          Inl e \<Rightarrow> Inl e
                        | Inr mapped \<Rightarrow>
                            (case join mapped '' '' of
                               Inl e \<Rightarrow> Inl e
                             | Inr errors \<Rightarrow>
                                 Inl (Error (''Request failed with ''
                                             @ show_nat (status response)
                                             @ '', '' @ errors))))))
           else Inr response,
           calls @ [(url, options)]))"

definition get_options :: RequestOptions where
  "get_options =
     \<lparr>method' = ''GET'',
      headers = [(''Accept'', ''application/vnd.pagerduty+json;version=2''),
                 (''Content-Type'', ''application/json'')],
      body = None\<rparr>"

definition getByUrl ::
  "ClientApiConfig \<Rightarrow> string \<Rightarrow> call list \<Rightarrow> (error + js) \<times> call list" where
  "getByUrl config url calls =
     (case request config url get_options calls of
        (Inl e, calls') \<Rightarrow> (Inl e, calls')
      | (Inr response, calls') \<Rightarrow>
          (case json response of
             None \<Rightarrow> (Inl SyntaxError, calls')
           | Some payload \<Rightarrow> (Inr payload, calls')))"

text \<open>
  The five GET helpers. Each resolves the proxy address, builds the URL by template
  interpolation, fetches and decodes, and destructures one property of the payload.
\<close>

definition getServiceByIntegrationKey ::
  "ClientApiConfig \<Rightarrow> string \<Rightarrow> call list \<Rightarrow> (error + js) \<times> call list" where
  "getServiceByIntegrationKey config integrationKey' calls =
     (let params = commonGetServiceParams @ ''&query='' @ integrationKey'
      in case getBaseUrl config ''proxy'' of
           Inl e \<Rightarrow> (Inl e, calls)
         | Inr base \<Rightarrow>
             (let url = base @ ''/pagerduty/services?'' @ params
              in case getByUrl config url calls of
                   (Inl e, calls') \<Rightarrow> (Inl e, calls')
                 | (Inr payload, calls') \<Rightarrow> (member payload ''services'', calls')))"

definition getServiceByServiceId ::
  "ClientApiConfig \<Rightarrow> string \<Rightarrow> call list \<Rightarrow> (error + js) \<times> call list" where
  "getServiceByServiceId config serviceId calls =
     (let params = commonGetServiceParams
      in case getBaseUrl config ''proxy'' of
           Inl e \<Rightarrow> (Inl e, calls)
         | Inr base \<Rightarrow>
             (let url = base @ ''/pagerduty/services/'' @ serviceId @ ''?'' @ params
              in case getByUrl config url calls of
                   (Inl e, calls') \<Rightarrow> (Inl e, calls')
                 | (Inr payload, calls') \<Rightarrow> (member payload ''service'', calls')))"

definition getIncidentsByServiceId ::
  "ClientApiConfig \<Rightarrow> string \<Rightarrow> call list \<Rightarrow> (error + js) \<times> call list" where
  "getIncidentsByServiceId config serviceId calls =
     (let params = ''time_zone=UTC&sort_by=created_at&statuses[]=triggered&statuses[]=acknowledged&service_ids[]='' @ serviceId
      in case getBaseUrl config ''proxy'' of
           Inl e \<Rightarrow> (Inl e, calls)
         | Inr base \<Rightarrow>
             (let url = base @ ''/pagerduty/incidents?'' @ params
              in case getByUrl config url calls of
                   (Inl e, calls') \<Rightarrow> (Inl e, calls')
                 | (Inr payload, calls') \<Rightarrow> (member payload ''incidents'', calls')))"

definition getChangeEventsByServiceId ::
  "ClientApiConfig \<Rightarrow> string \<Rightarrow> call list \<Rightarrow> (error + js) \<times> call list" where
  "getChangeEventsByServiceId config serviceId calls =
     (let params = ''limit=5&time_zone=UTC&sort_by=timestamp''
      in case getBaseUrl config ''proxy'' of
           Inl e \<Rightarrow> (Inl e, calls)
         | Inr base \<Rightarrow>
             (let url = base @ ''/pagerduty/services/'' @ serviceId @ ''/change_events?'' @ params
              in case getByUrl config url calls of
                   (Inl e, calls') \<Rightarrow> (Inl e, calls')
                 | (Inr payload, calls') \<Rightarrow> (member payload ''change_events'', calls')))"

definition getOnCallByPolicyId ::
  "ClientApiConfig \<Rightarrow> string \<Rightarrow> call list \<Rightarrow> (error + js) \<times> call list" where
  "getOnCallByPolicyId config policyId calls =
     (let params = ''time_zone=UTC&include[]=users&escalation_policy_ids[]='' @ policyId
      in case getBaseUrl config ''proxy'' of
           Inl e \<Rightarrow> (Inl e, calls)
         | Inr base \<Rightarrow>
             (let url = base @ ''/pagerduty/oncalls?'' @ params
              in case getByUrl config url calls of
                   (Inl e, calls') \<Rightarrow> (Inl e, calls')
                 | (Inr payload, calls') \<Rightarrow> (member payload ''oncalls'', calls')))"

subsection \<open>\<^verbatim>\<open>JSON.stringify\<close> and \<^verbatim>\<open>triggerAlarm\<close>\<close>

definition dquote :: char where
  "dquote = CHR 0x22"

definition bslash :: char where
  "bslash = CHR 0x5C"

definition hex_digit :: "nat \<Rightarrow> char" where
  "hex_digit d = (if d < 10 then char_of (48 + d) else char_of (87 + d))"

text \<open>
  The escaping of one code unit inside a JSON string literal: the two-character escapes
  for backspace, tab, line feed, form feed, carriage return, the quote and the backslash,
  \<^verbatim>\<open>\u00xx\<close> in lower-case hexadecimal for the other control characters, and the
  code unit itself otherwise.
\<close>

definition quote_char :: "char \<Rightarrow> string" where
  "quote_char c =
     (if c = CHR 0x08 then [bslash, CHR ''b'']
      else if c = CHR 0x09 then [bslash, CHR ''t'']
      else if c = CHR 0x0A then [bslash, CHR ''n'']
      else if c = CHR 0x0C then [bslash, CHR ''f'']
      else if c = CHR 0x0D then [bslash, CHR ''r'']
      else if c = dquote then [bslash, dquote]
      else if c = bslash then [bslash, bslash]
      else if (of_char c :: nat) < 32 then
        [bslash, CHR ''u'', CHR ''0'', CHR ''0'',
         hex_digit (of_char c div 16), hex_digit (of_char c mod 16)]
      else [c])"

definition QuoteJSONString :: "string \<Rightarrow> string" where
  "QuoteJSONString s = dquote # concat (map quote_char s) @ [dquote]"

fun separate :: "string \<Rightarrow> string list \<Rightarrow> string" where
  "separate sep [] = []"
| "separate sep [t] = t"
| "separate sep (t # u # us) = t @ sep @ separate sep (u # us)"

text \<open>
  \<^verbatim>\<open>JSON.stringify(value)\<close> with no replacer and no indentation. \<^verbatim>\<open>undefined\<close> has no
  JSON text: at the top the result is \<^verbatim>\<open>undefined\<close> (\<open>None\<close>), a property holding it
  is left out of its object, and an array element holding it is written \<^verbatim>\<open>null\<close>.
\<close>

fun JSON_stringify :: "js \<Rightarrow> string option"
  and stringify_properties :: "(string \<times> js) list \<Rightarrow> string list"
  and stringify_elements :: "js list \<Rightarrow> string list" where
  "JSON_stringify JUndefined = None"
| "JSON_stringify JNull = Some ''null''"
| "JSON_stringify (JBool b) = Some (if b then ''true'' else ''false'')"
| "JSON_stringify (JNum n) = Some n"
| "JSON_stringify (JStr s) = Some (QuoteJSONString s)"
| "JSON_stringify (JArr xs) = Some (''['' @ separate '','' (stringify_elements xs) @ '']'')"
| "JSON_stringify (JObj kvs) = Some (''{'' @ separate '','' (stringify_properties kvs) @ ''}'')"
| "stringify_properties [] = []"
| "stringify_properties ((k, v) # kvs) =
     (case JSON_stringify v of
        None \<Rightarrow> stringify_properties kvs
      | Some t \<Rightarrow> (QuoteJSONString k @ '':'' @ t) # stringify_properties kvs)"
| "stringify_elements [] = []"
| "stringify_elements (x # xs) =
     (case JSON_stringify x of None \<Rightarrow> ''null'' | Some t \<Rightarrow> t) # stringify_elements xs"

text \<open>The object literal that \<^verbatim>\<open>triggerAlarm\<close> serialises.\<close>

definition trigger_event :: "TriggerAlarmRequest \<Rightarrow> js" where
  "trigger_event request' =
     JObj [(''event_action'', JStr ''trigger''),
           (''routing_key'', JStr (integrationKey request')),
           (''client'', JStr ''Backstage''),
           (''client_url'', JStr (source request')),
           (''payload'',
            JObj [(''summary'', JStr (description request')),
                  (''source'', JStr (source request')),
                  (''severity'', JStr ''error''),
                  (''class'', JStr ''manual trigger''),
                  (''custom_details'',
                   JObj [(''user'',
                          case userName request' of None \<Rightarrow> JUndefined | Some u \<Rightarrow> JStr u)])])]"

definition triggerAlarm ::
  "ClientApiConfig \<Rightarrow> TriggerAlarmRequest \<Rightarrow> call list \<Rightarrow> (error + Response) \<times> call list" where
  "triggerAlarm config request' calls =
     (let body' = JSON_stringify (trigger_event request');
          options = \<lparr>method' = ''POST'',
                     headers = [(''Content-Type'', ''application/json; charset=UTF-8''),
                                (''Accept'', ''application/json, text/plain, */*'')],
                     body = body'\<rparr>;
          url = (case eventsBaseUrl config of None \<Rightarrow> default_eventsBaseUrl | Some u \<Rightarrow> u)
      in request config (url @ ''/enqueue'') options calls)"

section \<open>Reading JSON text\<close>

text \<open>
  A reader for JSON text after RFC 8259, used to state that a request body is well-formed
  JSON and which value it denotes. It keeps an object's members in the order of the text
  and a number as its literal text, and it refuses an escape \<^verbatim>\<open>\uXXXX\<close> of a code
  unit above 255. The recursion on nested values is bounded by the length of the text.
\<close>

definition is_ws :: "char \<Rightarrow> bool" where
  "is_ws c \<longleftrightarrow> c = CHR 0x20 \<or> c = CHR 0x09 \<or> c = CHR 0x0A \<or> c = CHR 0x0D"

fun skip_ws :: "string \<Rightarrow> string" where
  "skip_ws [] = []"
| "skip_ws (c # cs) = (if is_ws c then skip_ws cs else c # cs)"

definition hex_value :: "char \<Rightarrow> nat option" where
  "hex_value c =
     (let n = (of_char c :: nat)
      in if 48 \<le> n \<and> n \<le> 57 then Some (n - 48)
         else if 97 \<le> n \<and> n \<le> 102 then Some (n - 87)
         else if 65 \<le> n \<and> n \<le> 70 then Some (n - 55)
         else None)"

definition unescape :: "char \<Rightarrow> char option" where
  "unescape e =
     (if e = dquote then Some dquote
      else if e = bslash then Some bslash
      else if e = CHR ''/'' then Some (CHR ''/'')
      else if e = CHR ''b'' then Some (CHR 0x08)
      else if e = CHR ''f'' then Some (CHR 0x0C)
      else if e = CHR ''n'' then Some (CHR 0x0A)
      else if e = CHR ''r'' then Some (CHR 0x0D)
      else if e = CHR ''t'' then Some (CHR 0x09)
      else None)"

definition hex4 :: "string \<Rightarrow> nat option" where
  "hex4 hs =
     (case map hex_value hs of
        [Some a, Some b, Some c, Some d] \<Rightarrow> Some (((a * 16 + b) * 16 + c) * 16 + d)
      | _ \<Rightarrow> None)"

fun read_chars :: "string \<Rightarrow> (string \<times> string) option" where
  "read_chars [] = None"
| "read_chars (c # cs) =
     (if c = dquote then Some ([], cs)
      else if c = bslash then
        (case cs of
           [] \<Rightarrow> None
         | e # es \<Rightarrow>
             if e = CHR ''u'' then
               (case hex4 (take 4 es) of
                  None \<Rightarrow> None
                | Some n \<Rightarrow>
                    if n < 256
                    then map_option (\<lambda>(s, r). (char_of n # s, r)) (read_chars (drop 4 es))
                    else None)
             else
               (case unescape e of
                  None \<Rightarrow> None
                | Some x \<Rightarrow> map_option (\<lambda>(s, r). (x # s, r)) (read_chars es)))
      else if (of_char c :: nat) < 32 then None
      else map_option (\<lambda>(s, r). (c # s, r)) (read_chars cs))"

definition is_digit :: "char \<Rightarrow> bool" where
  "is_digit c \<longleftrightarrow> 48 \<le> (of_char c :: nat) \<and> (of_char c :: nat) \<le> 57"

text \<open>A number literal: an optional minus, the integer part, an optional fraction, an optional exponent.\<close>

definition read_int_part :: "string \<Rightarrow> (string \<times> string) option" where
  "read_int_part s =
     (case s of
        [] \<Rightarrow> None
      | c # cs \<Rightarrow>
          if c = CHR ''0'' then Some ([c], cs)
          else if is_digit c then Some (c # takeWhile is_digit cs, dropWhile is_digit cs)
          else None)"

definition read_frac_part :: "string \<Rightarrow> (string \<times> string) option" where
  "read_frac_part s =
     (case s of
        c # d # cs \<Rightarrow>
          if c = CHR ''.'' then
            (if is_digit d then Some (c # d # takeWhile is_digit cs, dropWhile is_digit cs) else None)
          else Some ([], s)
      | _ \<Rightarrow> (if s = ''.'' then None else Some ([], s)))"

definition read_exp_part :: "string \<Rightarrow> (string \<times> string) option" where
  "read_exp_part s =
     (case s of
        [] \<Rightarrow> Some ([], s)
      | c # cs \<Rightarrow>
          if c = CHR ''e'' \<or> c = CHR ''E'' then
            (let sign = (case cs of [] \<Rightarrow> [] | g # _ \<Rightarrow> if g = CHR ''+'' \<or> g = CHR ''-'' then [g] else []);
                 ds = drop (length sign) cs
             in if ds \<noteq> [] \<and> is_digit (hd ds)
                then Some (c # sign @ takeWhile is_digit ds, dropWhile is_digit ds)
                else None)
          else Some ([], s))"

definition read_number :: "string \<Rightarrow> (string \<times> string) option" where
  "read_number s =
     (let sign = (case s of [] \<Rightarrow> [] | c # _ \<Rightarrow> if c = CHR ''-'' then [c] else [])
      in case read_int_part (drop (length sign) s) of
           None \<Rightarrow> None
         | Some (i, r1) \<Rightarrow>
             (case read_frac_part r1 of
                None \<Rightarrow> None
              | Some (f, r2) \<Rightarrow>
                  (case read_exp_part r2 of
                     None \<Rightarrow> None
                   | Some (e, r3) \<Rightarrow> Some (sign @ i @ f @ e, r3))))"

fun read_value :: "nat \<Rightarrow> string \<Rightarrow> (js \<times> string) option"
  and read_members :: "nat \<Rightarrow> string \<Rightarrow> ((string \<times> js) list \<times> string) option"
  and read_elements :: "nat \<Rightarrow> string \<Rightarrow> (js list \<times> string) option" where
  "read_value 0 s = None"
| "read_value (Suc n) s =
     (case skip_ws s of
        [] \<Rightarrow> None
      | c # cs \<Rightarrow>
          if c = dquote then map_option (\<lambda>(t, r). (JStr t, r)) (read_chars cs)
          else if c = CHR ''{'' then
            (case skip_ws cs of
               [] \<Rightarrow> None
             | d # ds \<Rightarrow>
                 if d = CHR ''}'' then Some (JObj [], ds)
                 else map_option (\<lambda>(ms, r). (JObj ms, r)) (read_members n (d # ds)))
          else if c = CHR ''['' then
            (case skip_ws cs of
               [] \<Rightarrow> None
             | d # ds \<Rightarrow>
                 if d = CHR '']'' then Some (JArr [], ds)
                 else map_option (\<lambda>(xs, r). (JArr xs, r)) (read_elements n (d # ds)))
          else if take 4 (c # cs) = ''true'' then Some (JBool True, drop 4 (c # cs))
          else if take 5 (c # cs) = ''false'' then Some (JBool False, drop 5 (c # cs))
          else if take 4 (c # cs) = ''null'' then Some (JNull, drop 4 (c # cs))
          else map_option (\<lambda>(t, r). (JNum t, r)) (read_number (c # cs)))"
| "read_members 0 s = None"
| "read_members (Suc n) s =
     (case skip_ws s of
        [] \<Rightarrow> None
      | q # cs \<Rightarrow>
          if q \<noteq> dquote then None
          else
            (case read_chars cs of
               None \<Rightarrow> None
             | Some (k, r) \<Rightarrow>
                 (case skip_ws r of
                    [] \<Rightarrow> None
                  | c # r1 \<Rightarrow>
                      if c \<noteq> CHR '':'' then None
                      else
                        (case read_value n r1 of
                           None \<Rightarrow> None
                         | Some (v, r2) \<Rightarrow>
                             (case skip_ws r2 of
                                [] \<Rightarrow> None
                              | d # r3 \<Rightarrow>
                                  if d = CHR ''}'' then Some ([(k, v)], r3)
                                  else if d = CHR '','' then
                                    map_option (\<lambda>(ms, r4). ((k, v) # ms, r4)) (read_members n r3)
                                  else None)))))"
| "read_elements 0 s = None"
| "read_elements (Suc n) s =
     (case read_value n s of
        None \<Rightarrow> None
      | Some (v, r) \<Rightarrow>
          (case skip_ws r of
             [] \<Rightarrow> None
           | d # r1 \<Rightarrow>
               if d = CHR '']'' then Some ([v], r1)
               else if d = CHR '','' then map_option (\<lambda>(xs, r2). (v # xs, r2)) (read_elements n r1)
               else None))"

definition read_json :: "string \<Rightarrow> js option" where
  "read_json s =
     (case read_value (length s) s of
        None \<Rightarrow> None
      | Some (v, r) \<Rightarrow> if skip_ws r = [] then Some v else None)"

section \<open>Notions of the specification\<close>

text \<open>
  The value of a top-level field of a decoded body; \<^verbatim>\<open>undefined\<close> when the body has no
  such field.
\<close>

definition top_level_field :: "js \<Rightarrow> string \<Rightarrow> js" where
  "top_level_field payload name =
     (case payload of
        JObj kvs \<Rightarrow> (case map_of kvs name of None \<Rightarrow> JUndefined | Some v \<Rightarrow> v)
      | _ \<Rightarrow> JUndefined)"

text \<open>The \<^verbatim>\<open>errors\<close> array of an error body, when the body is an object that has one.\<close>

definition errors_array :: "js \<Rightarrow> js list option" where
  "errors_array payload =
     (case payload of
        JObj kvs \<Rightarrow> (case map_of kvs ''errors'' of Some (JArr xs) \<Rightarrow> Some xs | _ \<Rightarrow> None)
      | _ \<Rightarrow> None)"

text \<open>Strings joined with single spaces: the first, then each other one after one space.\<close>

definition joined_with_spaces :: "string list \<Rightarrow> string" where
  "joined_with_spaces msgs =
     (case msgs of [] \<Rightarrow> [] | m # ms \<Rightarrow> m @ concat (map (\<lambda>t. CHR '' '' # t) ms))"

text \<open>The number that a text of decimal digits denotes.\<close>

definition decimal_value :: "string \<Rightarrow> nat" where
  "decimal_value s = foldl (\<lambda>a c. 10 * a + (of_char c - 48)) 0 s"

text \<open>
  The query parameters of a URL as its receiver splits them: of the text before any
  \<^verbatim>\<open>#\<close>, the part after the first \<^verbatim>\<open>?\<close>, cut at every \<^verbatim>\<open>&\<close>, each piece cut at
  its first \<^verbatim>\<open>=\<close>.
\<close>

fun split_on :: "char \<Rightarrow> string \<Rightarrow> string list" where
  "split_on sep [] = [[]]"
| "split_on sep (c # cs) =
     (if c = sep then [] # split_on sep cs
      else (case split_on sep cs of [] \<Rightarrow> [[c]] | p # ps \<Rightarrow> (c # p) # ps))"

definition query_of :: "string \<Rightarrow> string" where
  "query_of url =
     drop 1 (dropWhile (\<lambda>c. c \<noteq> CHR ''?'') (takeWhile (\<lambda>c. c \<noteq> CHR ''#'') url))"

definition key_value :: "string \<Rightarrow> string \<times> string" where
  "key_value p =
     (takeWhile (\<lambda>c. c \<noteq> CHR ''='') p, drop 1 (dropWhile (\<lambda>c. c \<noteq> CHR ''='') p))"

definition query_params :: "string \<Rightarrow> (string \<times> string) list" where
  "query_params url = map key_value (filter (\<lambda>p. p \<noteq> []) (split_on CHR ''&'' (query_of url)))"


text \<open>
  The event that \<^verbatim>\<open>triggerAlarm\<close> is to send, as a JSON value, and the text the client
  writes for it.
\<close>

definition trigger_json :: "TriggerAlarmRequest \<Rightarrow> js" where
  "trigger_json request' =
     JObj [(''event_action'', JStr ''trigger''),
           (''routing_key'', JStr (integrationKey request')),
           (''client'', JStr ''Backstage''),
           (''client_url'', JStr (source request')),
           (''payload'',
            JObj [(''summary'', JStr (description request')),
                  (''source'', JStr (source request')),
                  (''severity'', JStr ''error''),
                  (''class'', JStr ''manual trigger''),
                  (''custom_details'',
                   JObj (case userName request' of
                           None \<Rightarrow> []
                         | Some u \<Rightarrow> [(''user'', JStr u)]))])]"

definition payload_text :: "TriggerAlarmRequest \<Rightarrow> string" where
  "payload_text r =
     ''{'' @ QuoteJSONString ''summary'' @ '':'' @ QuoteJSONString (description r)
     @ '','' @ QuoteJSONString ''source'' @ '':'' @ QuoteJSONString (source r)
     @ '','' @ QuoteJSONString ''severity'' @ '':'' @ QuoteJSONString ''error''
     @ '','' @ QuoteJSONString ''class'' @ '':'' @ QuoteJSONString ''manual trigger''
     @ '','' @ QuoteJSONString ''custom_details'' @ '':''
     @ (case userName r of
          None \<Rightarrow> ''{}''
        | Some u \<Rightarrow> ''{'' @ QuoteJSONString ''user'' @ '':'' @ QuoteJSONString u @ ''}'')
     @ ''}''"

definition event_text :: "TriggerAlarmRequest \<Rightarrow> string" where
  "event_text r =
     ''{'' @ QuoteJSONString ''event_action'' @ '':'' @ QuoteJSONString ''trigger''
     @ '','' @ QuoteJSONString ''routing_key'' @ '':'' @ QuoteJSONString (integrationKey r)
     @ '','' @ QuoteJSONString ''client'' @ '':'' @ QuoteJSONString ''Backstage''
     @ '','' @ QuoteJSONString ''client_url'' @ '':'' @ QuoteJSONString (source r)
     @ '','' @ QuoteJSONString ''payload'' @ '':'' @ payload_text r
     @ ''}''"

text \<open>
  A stub of the two collaborators, as a test gives them: the discovery resolves every name
  to one address, the transport answers every call with one status and one decoded body.
\<close>

definition stub :: "nat \<Rightarrow> js option \<Rightarrow> ClientApiConfig" where
  "stub code payload =
     \<lparr>eventsBaseUrl = None,
      getBaseUrl = (\<lambda>name. Inr ''http://localhost:7007/api/proxy''),
      fetch = (\<lambda>calls url options. Inr \<lparr>status = code, json = payload\<rparr>)\<rparr>"

definition alarm :: "string option \<Rightarrow> TriggerAlarmRequest" where
  "alarm user =
     \<lparr>integrationKey = ''abc123'', source = ''http://backstage/catalog'',
      description = ''disk full'', userName = user\<rparr>"

section \<open>Properties of the classifier\<close>

lemma digit_char_values:
  "digit_char 0 = CHR ''0''" "digit_char 1 = CHR ''1''" "digit_char 2 = CHR ''2''"
  "digit_char 3 = CHR ''3''" "digit_char 4 = CHR ''4''" "digit_char 5 = CHR ''5''"
  "digit_char 6 = CHR ''6''" "digit_char 7 = CHR ''7''" "digit_char 8 = CHR ''8''"
  "digit_char 9 = CHR ''9''"
  by code_simp+

lemma show_nat_examples:
  "show_nat 500 = ''500''" "show_nat 503 = ''503''" "show_nat 429 = ''429''"
  by (simp_all add: show_nat.simps digit_char_values)

text \<open>The status is rendered in decimal digits.\<close>

lemma of_char_digit_char: "d < 10 \<Longrightarrow> (of_char (digit_char d) :: nat) = 48 + d"
  by (simp add: digit_char_def)

lemma show_nat_decimal: "decimal_value (show_nat n) = n \<and> (\<forall>c \<in> set (show_nat n). is_digit c)"
proof (induction n rule: show_nat.induct)
  case (1 n)
  show ?case
  proof (cases "n < 10")
    case True
    then show ?thesis
      by (simp add: show_nat.simps [of n] decimal_value_def of_char_digit_char is_digit_def)
  next
    case False
    with 1 have ih: "decimal_value (show_nat (n div 10)) = n div 10"
      "\<forall>c \<in> set (show_nat (n div 10)). is_digit c"
      by simp_all
    have "(of_char (digit_char (n mod 10)) :: nat) = 48 + n mod 10"
      by (simp add: of_char_digit_char)
    with ih False show ?thesis
      by (simp add: show_nat.simps [of n] decimal_value_def is_digit_def)
  qed
qed

lemma request_calls: "snd (request config url options calls) = calls @ [(url, options)]"
  by (simp add: request_def split: sum.splits)

lemma request_401:
  "fetch config calls url options = Inr r \<Longrightarrow> status r = 401 \<Longrightarrow>
   request config url options calls = (Inl UnauthorizedError, calls @ [(url, options)])"
  by (simp add: request_def)

lemma request_404:
  "fetch config calls url options = Inr r \<Longrightarrow> status r = 404 \<Longrightarrow>
   request config url options calls = (Inl NotFoundError, calls @ [(url, options)])"
  by (simp add: request_def)

lemma request_ok:
  "fetch config calls url options = Inr r \<Longrightarrow> ok r \<Longrightarrow>
   request config url options calls = (Inr r, calls @ [(url, options)])"
  by (auto simp: request_def ok_def)

lemma member_errors_array:
  "errors_array payload = Some xs \<Longrightarrow> member payload ''errors'' = Inr (JArr xs)"
  by (auto simp: errors_array_def split: js.splits option.splits)

lemma no_errors_array:
  "errors_array payload = None \<Longrightarrow>
   (case member payload ''errors'' of Inl e \<Rightarrow> Inl e | Inr errs \<Rightarrow>
      (case array_map errs (\<lambda>error. error) of Inl e \<Rightarrow> Inl e | Inr mapped \<Rightarrow> f mapped))
   = Inl TypeError"
  by (cases payload) (auto simp: errors_array_def split: js.splits option.splits)

lemma join_strings: "join (map JStr msgs) '' '' = Inr (joined_with_spaces msgs)"
proof (induction msgs rule: induct_list012)
  case 1
  show ?case by (simp add: joined_with_spaces_def)
next
  case (2 m)
  show ?case by (simp add: joined_with_spaces_def)
next
  case (3 m m' ms)
  then show ?case by (simp add: joined_with_spaces_def)
qed

text \<open>
  An element of the \<^verbatim>\<open>errors\<close> array that is an object with an own \<^verbatim>\<open>toString\<close>
  property makes the join, and so the request, raise a \<open>TypeError\<close>.
\<close>

lemma join_own_toString:
  "join [JStr ''a'', JObj [(''toString'', JStr ''b'')]] '' '' = Inl TypeError"
  "join [JStr ''a'', JObj [(''code'', JNum ''7'')]] '' '' = Inr ''a [object Object]''"
  by simp_all

lemma request_failure:
  assumes "fetch config calls url options = Inr r" "\<not> ok r" "status r \<noteq> 401" "status r \<noteq> 404"
    and "json r = Some payload" "errors_array payload = Some (map JStr msgs)"
  shows "request config url options calls =
         (Inl (Error (''Request failed with '' @ show_nat (status r) @ '', '' @ joined_with_spaces msgs)),
          calls @ [(url, options)])"
  using assms by (simp add: request_def member_errors_array join_strings)

lemma request_undecodable:
  assumes "fetch config calls url options = Inr r" "\<not> ok r" "status r \<noteq> 401" "status r \<noteq> 404"
    and "json r = None"
  shows "request config url options calls = (Inl SyntaxError, calls @ [(url, options)])"
  using assms by (simp add: request_def)

lemma request_misshapen:
  assumes "fetch config calls url options = Inr r" "\<not> ok r" "status r \<noteq> 401" "status r \<noteq> 404"
    and "json r = Some payload" "errors_array payload = None"
  shows "request config url options calls = (Inl TypeError, calls @ [(url, options)])"
  using assms by (simp add: request_def no_errors_array)

section \<open>The operations on a rejected request\<close>

lemma getByUrl_error:
  "request config url get_options calls = (Inl e, calls') \<Longrightarrow>
   getByUrl config url calls = (Inl e, calls')"
  by (simp add: getByUrl_def)

lemma getByUrl_calls: "snd (getByUrl config url calls) = calls @ [(url, get_options)]"
  using request_calls [of config url get_options calls]
  by (auto simp: getByUrl_def split: prod.splits sum.splits option.splits)

text \<open>When every request is rejected with the same error, every operation raises it.\<close>

lemma get_helpers_rejected:
  assumes discovery: "getBaseUrl config ''proxy'' = Inr base"
    and rejected: "\<And>url options. fst (request config url options calls) = Inl e"
  shows "fst (getServiceByIntegrationKey config key calls) = Inl e"
    and "fst (getServiceByServiceId config sid calls) = Inl e"
    and "fst (getIncidentsByServiceId config sid calls) = Inl e"
    and "fst (getChangeEventsByServiceId config sid calls) = Inl e"
    and "fst (getOnCallByPolicyId config pid calls) = Inl e"
proof -
  have get: "fst (getByUrl config url calls) = Inl e" for url
    using rejected [of url get_options]
    by (cases "request config url get_options calls") (simp add: getByUrl_def)
  have pass: "fst (case getByUrl config url calls of
                     (Inl e, calls') \<Rightarrow> (Inl e, calls')
                   | (Inr payload, calls') \<Rightarrow> (member payload field, calls')) = Inl e"
    for url field
    using get [of url] by (cases "getByUrl config url calls") auto
  show "fst (getServiceByIntegrationKey config key calls) = Inl e"
    by (simp add: getServiceByIntegrationKey_def discovery pass)
  show "fst (getServiceByServiceId config sid calls) = Inl e"
    by (simp add: getServiceByServiceId_def discovery pass)
  show "fst (getIncidentsByServiceId config sid calls) = Inl e"
    by (simp add: getIncidentsByServiceId_def discovery pass)
  show "fst (getChangeEventsByServiceId config sid calls) = Inl e"
    by (simp add: getChangeEventsByServiceId_def discovery pass)
  show "fst (getOnCallByPolicyId config pid calls) = Inl e"
    by (simp add: getOnCallByPolicyId_def discovery pass)
qed

lemma triggerAlarm_rejected:
  assumes "\<And>url options. fst (request config url options calls) = Inl e"
  shows "fst (triggerAlarm config a calls) = Inl e"
  by (simp add: triggerAlarm_def Let_def assms)

lemma getByUrl_ok:
  "fetch config calls url get_options = Inr r \<Longrightarrow> ok r \<Longrightarrow> json r = Some payload \<Longrightarrow>
   getByUrl config url calls = (Inr payload, calls @ [(url, get_options)])"
  by (simp add: getByUrl_def request_ok)

lemma member_top_level_field:
  "payload \<noteq> JNull \<Longrightarrow> payload \<noteq> JUndefined \<Longrightarrow>
   member payload name = Inr (top_level_field payload name)"
  by (cases payload) (simp_all add: top_level_field_def)



section \<open>The requests that the operations make\<close>

lemma destructure_calls:
  "snd (case getByUrl config url calls of
          (Inl e, calls') \<Rightarrow> (Inl e, calls')
        | (Inr payload, calls') \<Rightarrow> (member payload field, calls'))
   = calls @ [(url, get_options)]"
  using getByUrl_calls [of config url calls]
  by (cases "getByUrl config url calls") (auto split: sum.splits)

lemma getServiceByIntegrationKey_calls:
  "getBaseUrl config ''proxy'' = Inr base \<Longrightarrow>
   snd (getServiceByIntegrationKey config key calls) =
   calls @ [(base @ ''/pagerduty/services?time_zone=UTC&include[]=integrations&include[]=escalation_policies&query='' @ key,
             get_options)]"
  by (simp add: getServiceByIntegrationKey_def commonGetServiceParams_def destructure_calls)

lemma getServiceByServiceId_calls:
  "getBaseUrl config ''proxy'' = Inr base \<Longrightarrow>
   snd (getServiceByServiceId config sid calls) =
   calls @ [(base @ ''/pagerduty/services/'' @ sid @ ''?time_zone=UTC&include[]=integrations&include[]=escalation_policies'',
             get_options)]"
  by (simp add: getServiceByServiceId_def commonGetServiceParams_def destructure_calls)




section \<open>Query strings\<close>

lemma split_on_absent: "sep \<notin> set s \<Longrightarrow> split_on sep s = [s]"
  by (induction s) auto

lemma takeWhile_absent:
  "c \<notin> set s \<Longrightarrow> takeWhile (\<lambda>x. x \<noteq> c) (s @ t) = s @ takeWhile (\<lambda>x. x \<noteq> c) t"
  by (induction s) auto

lemma takeWhile_absent_all: "c \<notin> set s \<Longrightarrow> takeWhile (\<lambda>x. x \<noteq> c) s = s"
  by (induction s) auto

lemma dropWhile_absent:
  "c \<notin> set s \<Longrightarrow> dropWhile (\<lambda>x. x \<noteq> c) (s @ t) = dropWhile (\<lambda>x. x \<noteq> c) t"
  by (induction s) auto


lemmas query_simps =
  query_params_def query_of_def key_value_def takeWhile_absent takeWhile_absent_all
  dropWhile_absent split_on_absent

section \<open>The body of the trigger request\<close>

lemma hex_value_hex_digit: "d < 16 \<Longrightarrow> hex_value (hex_digit d) = Some d"
  by (auto simp: hex_value_def hex_digit_def Let_def)

lemma hex4_control:
  "n < 256 \<Longrightarrow>
   hex4 (take 4 (CHR ''0'' # CHR ''0'' # hex_digit (n div 16) # hex_digit (n mod 16) # t)) = Some n"
  by (simp add: hex4_def hex_value_hex_digit less_mult_imp_div_less) (simp add: hex_value_def)

text \<open>Reading undoes the escaping of one code unit, and so of a whole string.\<close>

lemma read_chars_quote_char:
  "read_chars (quote_char c @ t) = map_option (\<lambda>(s, r). (c # s, r)) (read_chars t)"
proof -
  have n: "(of_char c :: nat) < 256" by simp
  show ?thesis
    using hex4_control [OF n]
    by (simp add: quote_char_def dquote_def bslash_def unescape_def)
qed

lemma read_chars_quoted:
  "read_chars (concat (map quote_char s) @ dquote # rest) = Some (s, rest)"
  by (induction s) (simp_all add: read_chars_quote_char)

lemmas read_quoted = read_chars_quoted [unfolded dquote_def] read_chars_quote_char

lemma read_string_value:
  "read_value (Suc n) (QuoteJSONString s @ rest) = Some (JStr s, rest)"
  by (simp add: QuoteJSONString_def is_ws_def dquote_def read_quoted)

lemma read_member_last:
  assumes "read_value n t = Some (v, CHR ''}'' # rest)"
  shows "read_members (Suc n) (QuoteJSONString k @ CHR '':'' # t) = Some ([(k, v)], rest)"
  using assms by (simp add: QuoteJSONString_def is_ws_def dquote_def read_quoted)

lemma read_member_more:
  assumes "read_value n t = Some (v, CHR '','' # rest)"
    and "read_members n rest = Some (ms, rest')"
  shows "read_members (Suc n) (QuoteJSONString k @ CHR '':'' # t) = Some ((k, v) # ms, rest')"
  using assms by (simp add: QuoteJSONString_def is_ws_def dquote_def read_quoted)

lemma read_object:
  assumes "read_members n (QuoteJSONString k @ t) = Some (ms, rest)"
  shows "read_value (Suc n) (CHR ''{'' # QuoteJSONString k @ t) = Some (JObj ms, rest)"
  using assms by (simp add: QuoteJSONString_def is_ws_def dquote_def)

lemma read_empty_object:
  "read_value (Suc n) (CHR ''{'' # CHR ''}'' # rest) = Some (JObj [], rest)"
  by (simp add: is_ws_def dquote_def)

lemma read_custom_details:
  "read_value (Suc (Suc (Suc n)))
     ((case un of
         None \<Rightarrow> ''{}''
       | Some u \<Rightarrow> ''{'' @ QuoteJSONString ''user'' @ '':'' @ QuoteJSONString u @ ''}'') @ rest)
   = Some (JObj (case un of None \<Rightarrow> [] | Some u \<Rightarrow> [(''user'', JStr u)]), rest)"
proof (cases un)
  case None
  then show ?thesis by (simp add: read_empty_object del: read_value.simps)
next
  case (Some u)
  have "read_members (Suc (Suc n))
          (QuoteJSONString ''user'' @ CHR '':'' # QuoteJSONString u @ CHR ''}'' # rest)
        = Some ([(''user'', JStr u)], rest)"
    by (rule read_member_last) (rule read_string_value)
  then have "read_value (Suc (Suc (Suc n)))
          (CHR ''{'' # QuoteJSONString ''user'' @ CHR '':'' # QuoteJSONString u @ CHR ''}'' # rest)
        = Some (JObj [(''user'', JStr u)], rest)"
    by (rule read_object)
  with Some show ?thesis by simp
qed

lemma read_payload:
  "read_value (Suc (Suc (Suc (Suc (Suc (Suc (Suc (Suc (Suc n))))))))) (payload_text r @ rest)
   = Some (JObj [(''summary'', JStr (description r)),
                 (''source'', JStr (source r)),
                 (''severity'', JStr ''error''),
                 (''class'', JStr ''manual trigger''),
                 (''custom_details'',
                  JObj (case userName r of None \<Rightarrow> [] | Some u \<Rightarrow> [(''user'', JStr u)]))],
           rest)"
  unfolding payload_text_def
  apply (simp del: read_value.simps read_members.simps)
  apply (rule read_object)
  apply (rule read_member_more, rule read_string_value)
  apply (rule read_member_more, rule read_string_value)
  apply (rule read_member_more, rule read_string_value)
  apply (rule read_member_more, rule read_string_value)
  apply (rule read_member_last)
  apply (rule read_custom_details)
  done

lemma read_event:
  "read_value (Suc (Suc (Suc (Suc (Suc (Suc (Suc (Suc (Suc (Suc (Suc (Suc (Suc (Suc (Suc n)))))))))))))))
     (event_text r) = Some (trigger_json r, [])"
  unfolding event_text_def trigger_json_def
  apply (simp del: read_value.simps read_members.simps)
  apply (rule read_object)
  apply (rule read_member_more, rule read_string_value)
  apply (rule read_member_more, rule read_string_value)
  apply (rule read_member_more, rule read_string_value)
  apply (rule read_member_more, rule read_string_value)
  apply (rule read_member_last)
  apply (rule read_payload)
  done

lemma length_event_text: "15 \<le> length (event_text r)"
  by (simp add: event_text_def QuoteJSONString_def)

lemma read_json_event: "read_json (event_text r) = Some (trigger_json r)"
proof -
  define n where "n = length (event_text r) - 15"
  have "length (event_text r)
        = Suc (Suc (Suc (Suc (Suc (Suc (Suc (Suc (Suc (Suc (Suc (Suc (Suc (Suc (Suc n))))))))))))))"
    unfolding n_def using length_event_text [of r] by arith
  then show ?thesis
    by (simp add: read_json_def read_event del: read_value.simps)
qed

lemma fromConfig_eventsBaseUrl:
  "eventsBaseUrl (fromConfig getOptionalString discoveryApi fetchApi)
   = Some (case getOptionalString ''pagerDuty.eventsBaseUrl'' of
             None \<Rightarrow> ''https://events.pagerduty.com/v2'' | Some u \<Rightarrow> u)"
  by (cases "getOptionalString ''pagerDuty.eventsBaseUrl''")
    (simp_all add: fromConfig_def default_eventsBaseUrl_def)

lemma stringify_trigger_event: "JSON_stringify (trigger_event r) = Some (event_text r)"
  unfolding trigger_event_def event_text_def payload_text_def
  by (cases "userName r") simp_all

section \<open>The claims\<close>

text \<open>
  Claim C1. Every operation of the client (the five GET helpers, which call the transport
  once the discovery has given the proxy address, and \<^verbatim>\<open>triggerAlarm\<close>) raises
  \<open>UnauthorizedError\<close> when the transport answers with status 401, whatever the body of
  the response is. \<open>UnauthorizedError\<close> carries no message and is distinct from
  \<open>NotFoundError\<close> and from every \<open>Error message\<close>.
\<close>

theorem unauthorized_on_401:
  assumes transport:
      "\<forall>calls url options. \<exists>r. fetch config calls url options = Inr r \<and> status r = 401"
  shows "(getBaseUrl config ''proxy'' = Inr base \<longrightarrow>
            fst (getServiceByIntegrationKey config key calls) = Inl UnauthorizedError
          \<and> fst (getServiceByServiceId config sid calls) = Inl UnauthorizedError
          \<and> fst (getIncidentsByServiceId config sid calls) = Inl UnauthorizedError
          \<and> fst (getChangeEventsByServiceId config sid calls) = Inl UnauthorizedError
          \<and> fst (getOnCallByPolicyId config pid calls) = Inl UnauthorizedError)
       \<and> fst (triggerAlarm config a calls) = Inl UnauthorizedError
       \<and> UnauthorizedError \<noteq> NotFoundError
       \<and> (\<forall>message. UnauthorizedError \<noteq> Error message)"
proof -
  have rejected: "fst (request config url options calls) = Inl UnauthorizedError" for url options
  proof -
    from transport obtain r where "fetch config calls url options = Inr r" "status r = 401"
      by blast
    then show ?thesis by (simp add: request_401)
  qed
  show ?thesis
    using get_helpers_rejected [OF _ rejected, of base] triggerAlarm_rejected [OF rejected]
    by simp
qed

theorem unauthorized_on_401_witness:
  "getBaseUrl (stub 401 (Some (JObj []))) ''proxy'' = Inr ''http://localhost:7007/api/proxy''
   \<and> (\<forall>calls url options. \<exists>r. fetch (stub 401 (Some (JObj []))) calls url options = Inr r
         \<and> status r = 401)
   \<and> fst (getServiceByIntegrationKey (stub 401 (Some (JObj []))) ''abc123'' []) = Inl UnauthorizedError
   \<and> fst (getServiceByServiceId (stub 401 (Some (JObj []))) ''def456'' []) = Inl UnauthorizedError
   \<and> fst (getIncidentsByServiceId (stub 401 (Some (JObj []))) ''def456'' []) = Inl UnauthorizedError
   \<and> fst (getChangeEventsByServiceId (stub 401 (Some (JObj []))) ''def456'' []) = Inl UnauthorizedError
   \<and> fst (getOnCallByPolicyId (stub 401 (Some (JObj []))) ''P1'' []) = Inl UnauthorizedError
   \<and> fst (triggerAlarm (stub 401 (Some (JObj []))) (alarm None) []) = Inl UnauthorizedError"
proof -
  have d: "getBaseUrl (stub 401 (Some (JObj []))) ''proxy'' = Inr ''http://localhost:7007/api/proxy''"
    by (simp add: stub_def)
  have t: "\<forall>calls url options. \<exists>r. fetch (stub 401 (Some (JObj []))) calls url options = Inr r
         \<and> status r = 401"
    by (simp add: stub_def)
  show ?thesis
    using d t
      unauthorized_on_401 [OF t, where base = "''http://localhost:7007/api/proxy''"
        and key = "''abc123''" and calls = "[]" and sid = "''def456''" and pid = "''P1''"
        and a = "alarm None"]
    by simp
qed

text \<open>
  Claim C2. Every operation of the client (the GET helpers again once the discovery has
  given the proxy address) raises \<open>NotFoundError\<close> when the transport answers with status
  404, whatever the body of the response is. \<open>NotFoundError\<close> carries
  no message and is distinct from \<open>UnauthorizedError\<close> and from every \<open>Error message\<close>.
\<close>

theorem not_found_on_404:
  assumes transport:
      "\<forall>calls url options. \<exists>r. fetch config calls url options = Inr r \<and> status r = 404"
  shows "(getBaseUrl config ''proxy'' = Inr base \<longrightarrow>
            fst (getServiceByIntegrationKey config key calls) = Inl NotFoundError
          \<and> fst (getServiceByServiceId config sid calls) = Inl NotFoundError
          \<and> fst (getIncidentsByServiceId config sid calls) = Inl NotFoundError
          \<and> fst (getChangeEventsByServiceId config sid calls) = Inl NotFoundError
          \<and> fst (getOnCallByPolicyId config pid calls) = Inl NotFoundError)
       \<and> fst (triggerAlarm config a calls) = Inl NotFoundError
       \<and> NotFoundError \<noteq> UnauthorizedError
       \<and> (\<forall>message. NotFoundError \<noteq> Error message)"
proof -
  have rejected: "fst (request config url options calls) = Inl NotFoundError" for url options
  proof -
    from transport obtain r where "fetch config calls url options = Inr r" "status r = 404"
      by blast
    then show ?thesis by (simp add: request_404)
  qed
  show ?thesis
    using get_helpers_rejected [OF _ rejected, of base] triggerAlarm_rejected [OF rejected]
    by simp
qed

theorem not_found_on_404_witness:
  "getBaseUrl (stub 404 None) ''proxy'' = Inr ''http://localhost:7007/api/proxy''
   \<and> (\<forall>calls url options. \<exists>r. fetch (stub 404 None) calls url options = Inr r
         \<and> status r = 404)
   \<and> fst (getServiceByIntegrationKey (stub 404 None) ''abc123'' []) = Inl NotFoundError
   \<and> fst (getServiceByServiceId (stub 404 None) ''def456'' []) = Inl NotFoundError
   \<and> fst (getIncidentsByServiceId (stub 404 None) ''def456'' []) = Inl NotFoundError
   \<and> fst (getChangeEventsByServiceId (stub 404 None) ''def456'' []) = Inl NotFoundError
   \<and> fst (getOnCallByPolicyId (stub 404 None) ''P1'' []) = Inl NotFoundError
   \<and> fst (triggerAlarm (stub 404 None) (alarm (Some ''guest'')) []) = Inl NotFoundError"
proof -
  have d: "getBaseUrl (stub 404 None) ''proxy'' = Inr ''http://localhost:7007/api/proxy''"
    by (simp add: stub_def)
  have t: "\<forall>calls url options. \<exists>r. fetch (stub 404 None) calls url options = Inr r
         \<and> status r = 404"
    by (simp add: stub_def)
  show ?thesis
    using d t
      not_found_on_404 [OF t, where base = "''http://localhost:7007/api/proxy''"
        and key = "''abc123''" and calls = "[]" and sid = "''def456''" and pid = "''P1''"
        and a = "alarm (Some ''guest'')"]
    by simp
qed

text \<open>
  Claim C3. When the transport answers with a status outside 200..299 other than 401 and
  404, and the decoded body has an \<^verbatim>\<open>errors\<close> array of strings, every operation raises
  an \<open>Error\<close> whose message is exactly \<^verbatim>\<open>Request failed with \<close>, the status in decimal
  digits, a comma and a space, and the strings of the array joined with single spaces.
\<close>

theorem generic_failure_message:
  assumes transport: "\<forall>calls url options. fetch config calls url options = Inr r"
    and status: "\<not> ok r" "status r \<noteq> 401" "status r \<noteq> 404"
    and body: "json r = Some payload" "errors_array payload = Some (map JStr msgs)"
  shows "(getBaseUrl config ''proxy'' = Inr base \<longrightarrow>
            fst (getServiceByIntegrationKey config key calls) = Inl (Error (''Request failed with '' @ show_nat (status r) @ '', '' @ joined_with_spaces msgs))
          \<and> fst (getServiceByServiceId config sid calls) = Inl (Error (''Request failed with '' @ show_nat (status r) @ '', '' @ joined_with_spaces msgs))
          \<and> fst (getIncidentsByServiceId config sid calls) = Inl (Error (''Request failed with '' @ show_nat (status r) @ '', '' @ joined_with_spaces msgs))
          \<and> fst (getChangeEventsByServiceId config sid calls) = Inl (Error (''Request failed with '' @ show_nat (status r) @ '', '' @ joined_with_spaces msgs))
          \<and> fst (getOnCallByPolicyId config pid calls) = Inl (Error (''Request failed with '' @ show_nat (status r) @ '', '' @ joined_with_spaces msgs)))
       \<and> fst (triggerAlarm config a calls) = Inl (Error (''Request failed with '' @ show_nat (status r) @ '', '' @ joined_with_spaces msgs))
       \<and> decimal_value (show_nat (status r)) = status r"
proof -
  have rejected: "fst (request config url options calls)
        = Inl (Error (''Request failed with '' @ show_nat (status r) @ '', '' @ joined_with_spaces msgs))"
    for url options
    using request_failure [OF transport [rule_format] status body] by simp
  show ?thesis
    using get_helpers_rejected [OF _ rejected, of base] triggerAlarm_rejected [OF rejected]
    by (simp add: show_nat_decimal)
qed

theorem generic_failure_message_witness:
  "fst (getServiceByIntegrationKey
          (stub 500 (Some (JObj [(''errors'', JArr [JStr ''Internal'', JStr ''try later''])])))
          ''abc123'' [])
     = Inl (Error ''Request failed with 500, Internal try later'')
   \<and> fst (triggerAlarm
          (stub 500 (Some (JObj [(''errors'', JArr [JStr ''Internal'', JStr ''try later''])])))
          (alarm None) [])
     = Inl (Error ''Request failed with 500, Internal try later'')"
  using generic_failure_message
    [where config = "stub 500 (Some (JObj [(''errors'', JArr [JStr ''Internal'', JStr ''try later''])]))"
       and base = "''http://localhost:7007/api/proxy''"
       and r = "\<lparr>status = 500, json = Some (JObj [(''errors'', JArr [JStr ''Internal'', JStr ''try later''])])\<rparr>"
       and payload = "JObj [(''errors'', JArr [JStr ''Internal'', JStr ''try later''])]"
       and msgs = "[''Internal'', ''try later'']" and key = "''abc123''" and calls = "[]"
       and sid = "''def456''" and pid = "''P1''" and a = "alarm None"]
  by (simp add: stub_def ok_def errors_array_def joined_with_spaces_def show_nat_examples)

text \<open>
  Claim C4, as amended. When the transport answers with a status in 200..299 and the body
  decodes to a value other than \<^verbatim>\<open>null\<close>, each GET helper returns the value of its
  top-level field of the decoded body, unchanged (\<^verbatim>\<open>undefined\<close> when the body has no
  such field): \<^verbatim>\<open>services\<close>, \<^verbatim>\<open>service\<close>, \<^verbatim>\<open>incidents\<close>, \<^verbatim>\<open>change_events\<close>,
  \<^verbatim>\<open>oncalls\<close>.
\<close>

theorem accessor_returns_field:
  assumes discovery: "getBaseUrl config ''proxy'' = Inr base"
    and transport: "\<forall>calls url options. fetch config calls url options = Inr r"
    and status: "ok r"
    and body: "json r = Some payload" "payload \<noteq> JNull" "payload \<noteq> JUndefined"
  shows "fst (getServiceByIntegrationKey config key calls) = Inr (top_level_field payload ''services'')
       \<and> fst (getServiceByServiceId config sid calls) = Inr (top_level_field payload ''service'')
       \<and> fst (getIncidentsByServiceId config sid calls) = Inr (top_level_field payload ''incidents'')
       \<and> fst (getChangeEventsByServiceId config sid calls) = Inr (top_level_field payload ''change_events'')
       \<and> fst (getOnCallByPolicyId config pid calls) = Inr (top_level_field payload ''oncalls'')"
proof -
  have get: "getByUrl config url calls = (Inr payload, calls @ [(url, get_options)])" for url
    using transport status body(1) by (simp add: getByUrl_ok)
  have field: "member payload name = Inr (top_level_field payload name)" for name
    using body(2,3) by (rule member_top_level_field)
  have "fst (getServiceByIntegrationKey config key calls) = Inr (top_level_field payload ''services'')"
    by (simp add: getServiceByIntegrationKey_def discovery get field)
  moreover
  have "fst (getServiceByServiceId config sid calls) = Inr (top_level_field payload ''service'')"
    by (simp add: getServiceByServiceId_def discovery get field)
  moreover
  have "fst (getIncidentsByServiceId config sid calls) = Inr (top_level_field payload ''incidents'')"
    by (simp add: getIncidentsByServiceId_def discovery get field)
  moreover
  have "fst (getChangeEventsByServiceId config sid calls) = Inr (top_level_field payload ''change_events'')"
    by (simp add: getChangeEventsByServiceId_def discovery get field)
  moreover
  have "fst (getOnCallByPolicyId config pid calls) = Inr (top_level_field payload ''oncalls'')"
    by (simp add: getOnCallByPolicyId_def discovery get field)
  ultimately show ?thesis by simp
qed

text \<open>
  The scenario of the claim: \<^verbatim>\<open>getServiceByServiceId("def456")\<close> against a stub that
  answers 200 with \<^verbatim>\<open>{"service": {"id": "def456", "name": "X"}}\<close> yields the service
  record, whose \<^verbatim>\<open>id\<close> is \<^verbatim>\<open>def456\<close>.
\<close>

theorem accessor_returns_field_witness:
  "fst (getServiceByServiceId
          (stub 200 (Some (JObj [(''service'', JObj [(''id'', JStr ''def456''), (''name'', JStr ''X'')])])))
          ''def456'' [])
     = Inr (JObj [(''id'', JStr ''def456''), (''name'', JStr ''X'')])
   \<and> top_level_field (JObj [(''id'', JStr ''def456''), (''name'', JStr ''X'')]) ''id'' = JStr ''def456''
   \<and> fst (getServiceByIntegrationKey
          (stub 200 (Some (JObj [(''service'', JObj [(''id'', JStr ''def456''), (''name'', JStr ''X'')])])))
          ''abc123'' [])
     = Inr JUndefined"
  using accessor_returns_field
    [of "stub 200 (Some (JObj [(''service'', JObj [(''id'', JStr ''def456''), (''name'', JStr ''X'')])]))"
        "''http://localhost:7007/api/proxy''"
        "\<lparr>status = 200, json = Some (JObj [(''service'', JObj [(''id'', JStr ''def456''), (''name'', JStr ''X'')])])\<rparr>"
        "JObj [(''service'', JObj [(''id'', JStr ''def456''), (''name'', JStr ''X'')])]"
        "''abc123''" "[]" "''def456''" "''P1''"]
  by (simp add: stub_def ok_def top_level_field_def)

text \<open>
  Claim C4 as stated fails on the body \<^verbatim>\<open>null\<close>, which is well-formed JSON: the
  destructuring of \<^verbatim>\<open>null\<close> raises, and the helper returns no value.
\<close>

theorem accessor_on_null_counterexample:
  "ok \<lparr>status = 200, json = Some JNull\<rparr>
   \<and> fst (getServiceByServiceId (stub 200 (Some JNull)) ''def456'' []) = Inl TypeError
   \<and> fst (getServiceByServiceId (stub 200 (Some JNull)) ''def456'' [])
       \<noteq> Inr (top_level_field JNull ''service'')"
  by (simp add: getServiceByServiceId_def stub_def getByUrl_def request_def ok_def)

text \<open>
  Claim C5. \<^verbatim>\<open>triggerAlarm\<close> makes one POST call to the events address followed by
  \<^verbatim>\<open>/enqueue\<close>. Its body is JSON text for an object with \<^verbatim>\<open>event_action\<close>
  \<^verbatim>\<open>trigger\<close>, \<^verbatim>\<open>routing_key\<close> the integration key, \<^verbatim>\<open>client\<close> \<^verbatim>\<open>Backstage\<close>,
  \<^verbatim>\<open>client_url\<close> the source, and a \<^verbatim>\<open>payload\<close> with \<^verbatim>\<open>summary\<close> the description,
  \<^verbatim>\<open>source\<close> the source, \<^verbatim>\<open>severity\<close> \<^verbatim>\<open>error\<close>, \<^verbatim>\<open>class\<close> \<^verbatim>\<open>manual trigger\<close> and
  \<^verbatim>\<open>custom_details\<close> holding the user name. Without a user name the body is still
  well-formed JSON: \<^verbatim>\<open>custom_details\<close> is then the empty object.
\<close>

theorem trigger_alarm_request:
  "snd (triggerAlarm config r calls)
   = calls @ [((case eventsBaseUrl config of None \<Rightarrow> ''https://events.pagerduty.com/v2'' | Some u \<Rightarrow> u)
                 @ ''/enqueue'',
               \<lparr>method' = ''POST'',
                headers = [(''Content-Type'', ''application/json; charset=UTF-8''),
                           (''Accept'', ''application/json, text/plain, */*'')],
                body = Some (event_text r)\<rparr>)]
   \<and> read_json (event_text r) = Some (trigger_json r)
   \<and> top_level_field (trigger_json r) ''event_action'' = JStr ''trigger''
   \<and> top_level_field (trigger_json r) ''routing_key'' = JStr (integrationKey r)
   \<and> top_level_field (trigger_json r) ''client'' = JStr ''Backstage''
   \<and> top_level_field (trigger_json r) ''client_url'' = JStr (source r)
   \<and> top_level_field (trigger_json r) ''payload''
     = JObj [(''summary'', JStr (description r)),
             (''source'', JStr (source r)),
             (''severity'', JStr ''error''),
             (''class'', JStr ''manual trigger''),
             (''custom_details'',
              JObj (case userName r of None \<Rightarrow> [] | Some u \<Rightarrow> [(''user'', JStr u)]))]"
proof -
  have "snd (triggerAlarm config r calls)
   = calls @ [((case eventsBaseUrl config of None \<Rightarrow> ''https://events.pagerduty.com/v2'' | Some u \<Rightarrow> u)
                 @ ''/enqueue'',
               \<lparr>method' = ''POST'',
                headers = [(''Content-Type'', ''application/json; charset=UTF-8''),
                           (''Accept'', ''application/json, text/plain, */*'')],
                body = Some (event_text r)\<rparr>)]"
    by (cases "eventsBaseUrl config")
      (simp_all add: triggerAlarm_def Let_def request_calls stringify_trigger_event
        default_eventsBaseUrl_def)
  moreover have "read_json (event_text r) = Some (trigger_json r)"
    by (rule read_json_event)
  ultimately show ?thesis
    by (simp add: trigger_json_def top_level_field_def)
qed

theorem trigger_alarm_request_witness:
  "map fst (snd (triggerAlarm (stub 202 None) (alarm None) []))
     = [''https://events.pagerduty.com/v2/enqueue'']
   \<and> read_json (event_text (alarm None))
     = Some (JObj [(''event_action'', JStr ''trigger''),
                   (''routing_key'', JStr ''abc123''),
                   (''client'', JStr ''Backstage''),
                   (''client_url'', JStr ''http://backstage/catalog''),
                   (''payload'',
                    JObj [(''summary'', JStr ''disk full''),
                          (''source'', JStr ''http://backstage/catalog''),
                          (''severity'', JStr ''error''),
                          (''class'', JStr ''manual trigger''),
                          (''custom_details'', JObj [])])])
   \<and> top_level_field (trigger_json (alarm (Some ''guest''))) ''payload''
     = JObj [(''summary'', JStr ''disk full''),
             (''source'', JStr ''http://backstage/catalog''),
             (''severity'', JStr ''error''),
             (''class'', JStr ''manual trigger''),
             (''custom_details'', JObj [(''user'', JStr ''guest'')])]"
  using trigger_alarm_request [of "stub 202 None" "alarm None" "[]"]
    trigger_alarm_request [of "stub 202 None" "alarm (Some ''guest'')" "[]"]
  by (simp add: stub_def alarm_def trigger_json_def)

text \<open>
  Claim C6, as amended. With \<open>base\<close> the address that the discovery gives for
  \<^verbatim>\<open>proxy\<close>, \<^verbatim>\<open>getServiceByIntegrationKey\<close> makes one GET call to
  \<^verbatim>\<open><base>/pagerduty/services\<close> with the query \<^verbatim>\<open>time_zone=UTC\<close>,
  \<^verbatim>\<open>include[]=integrations\<close>, \<^verbatim>\<open>include[]=escalation_policies\<close> and \<^verbatim>\<open>query=<key>\<close>,
  and \<^verbatim>\<open>getServiceByServiceId\<close> one GET call to \<^verbatim>\<open><base>/pagerduty/services/<id>\<close> with
  the same first three parameters. For a key without \<^verbatim>\<open>&\<close> and \<^verbatim>\<open>#\<close> and an id without
  \<^verbatim>\<open>?\<close> and \<^verbatim>\<open>#\<close>, under a proxy address without \<^verbatim>\<open>?\<close> and \<^verbatim>\<open>#\<close>, these are
  exactly the parameters the receiver reads.
\<close>

theorem services_requests:
  assumes discovery: "getBaseUrl config ''proxy'' = Inr base"
  shows "snd (getServiceByIntegrationKey config key calls)
         = calls @ [(base @ ''/pagerduty/services?time_zone=UTC&include[]=integrations&include[]=escalation_policies&query='' @ key,
                     get_options)]
       \<and> snd (getServiceByServiceId config sid calls)
         = calls @ [(base @ ''/pagerduty/services/'' @ sid @ ''?time_zone=UTC&include[]=integrations&include[]=escalation_policies'',
                     get_options)]
       \<and> method' get_options = ''GET''
       \<and> (CHR ''?'' \<notin> set base \<and> CHR ''#'' \<notin> set base \<and> CHR ''&'' \<notin> set key \<and> CHR ''#'' \<notin> set key \<longrightarrow>
            query_params (base @ ''/pagerduty/services?time_zone=UTC&include[]=integrations&include[]=escalation_policies&query='' @ key)
            = [(''time_zone'', ''UTC''), (''include[]'', ''integrations''),
               (''include[]'', ''escalation_policies''), (''query'', key)])
       \<and> (CHR ''?'' \<notin> set base \<and> CHR ''#'' \<notin> set base \<and> CHR ''?'' \<notin> set sid \<and> CHR ''#'' \<notin> set sid \<longrightarrow>
            query_params (base @ ''/pagerduty/services/'' @ sid @ ''?time_zone=UTC&include[]=integrations&include[]=escalation_policies'')
            = [(''time_zone'', ''UTC''), (''include[]'', ''integrations''),
               (''include[]'', ''escalation_policies'')])"
proof -
  have "query_params (base @ ''/pagerduty/services?time_zone=UTC&include[]=integrations&include[]=escalation_policies&query='' @ key)
            = [(''time_zone'', ''UTC''), (''include[]'', ''integrations''),
               (''include[]'', ''escalation_policies''), (''query'', key)]"
    if "CHR ''?'' \<notin> set base" "CHR ''#'' \<notin> set base" "CHR ''&'' \<notin> set key" "CHR ''#'' \<notin> set key"
    using that by (simp add: query_simps)
  moreover
  have "query_params (base @ ''/pagerduty/services/'' @ sid @ ''?time_zone=UTC&include[]=integrations&include[]=escalation_policies'')
            = [(''time_zone'', ''UTC''), (''include[]'', ''integrations''),
               (''include[]'', ''escalation_policies'')]"
    if "CHR ''?'' \<notin> set base" "CHR ''#'' \<notin> set base" "CHR ''?'' \<notin> set sid" "CHR ''#'' \<notin> set sid"
    using that by (simp add: query_simps)
  ultimately show ?thesis
    using getServiceByIntegrationKey_calls [OF discovery, of key calls]
      getServiceByServiceId_calls [OF discovery, of sid calls]
    by (simp add: get_options_def)
qed

theorem services_requests_witness:
  "getBaseUrl (stub 200 None) ''proxy'' = Inr ''http://localhost:7007/api/proxy''
   \<and> snd (getServiceByIntegrationKey (stub 200 None) ''abc123'' [])
     = [(''http://localhost:7007/api/proxy/pagerduty/services?time_zone=UTC&include[]=integrations&include[]=escalation_policies&query=abc123'',
         get_options)]
   \<and> snd (getServiceByServiceId (stub 200 None) ''def456'' [])
     = [(''http://localhost:7007/api/proxy/pagerduty/services/def456?time_zone=UTC&include[]=integrations&include[]=escalation_policies'',
         get_options)]
   \<and> query_params ''http://localhost:7007/api/proxy/pagerduty/services?time_zone=UTC&include[]=integrations&include[]=escalation_policies&query=abc123''
     = [(''time_zone'', ''UTC''), (''include[]'', ''integrations''),
        (''include[]'', ''escalation_policies''), (''query'', ''abc123'')]"
  using services_requests
    [of "stub 200 None" "''http://localhost:7007/api/proxy''" "''abc123''" "[]" "''def456''"]
  by (simp add: stub_def)

text \<open>
  Claim C6 as stated fails: the URL is not the discovered address followed by
  \<^verbatim>\<open>/services\<close>, since the client puts the segment \<^verbatim>\<open>/pagerduty\<close> between them.
\<close>

theorem services_url_counterexample:
  "getBaseUrl (stub 200 None) ''proxy'' = Inr ''http://localhost:7007/api/proxy''
   \<and> map fst (snd (getServiceByIntegrationKey (stub 200 None) ''abc123'' []))
       \<noteq> [''http://localhost:7007/api/proxy'' @ ''/services?time_zone=UTC&include[]=integrations&include[]=escalation_policies&query=abc123'']
   \<and> map fst (snd (getServiceByServiceId (stub 200 None) ''def456'' []))
       \<noteq> [''http://localhost:7007/api/proxy'' @ ''/services/def456?time_zone=UTC&include[]=integrations&include[]=escalation_policies'']"
  by (simp add: getServiceByIntegrationKey_calls getServiceByServiceId_calls stub_def)







text \<open>
  Claim C9. When the transport answers with a status outside 200..299 other than 401 and
  404, and the body is not well-formed JSON or decodes to a value without an \<^verbatim>\<open>errors\<close>
  array, every operation raises the error of the failed decoding or property access: a
  \<open>SyntaxError\<close> in the first case, a \<open>TypeError\<close> in the second. Neither is
  \<open>UnauthorizedError\<close>, \<open>NotFoundError\<close> or an \<open>Error\<close> with a message.
\<close>

theorem unshaped_error_body_propagates:
  assumes transport: "\<forall>calls url options. fetch config calls url options = Inr r"
    and status: "\<not> ok r" "status r \<noteq> 401" "status r \<noteq> 404"
    and body: "json r = None \<or> (\<exists>payload. json r = Some payload \<and> errors_array payload = None)"
  shows "(getBaseUrl config ''proxy'' = Inr base \<longrightarrow>
            fst (getServiceByIntegrationKey config key calls) = Inl (if json r = None then SyntaxError else TypeError)
          \<and> fst (getServiceByServiceId config sid calls) = Inl (if json r = None then SyntaxError else TypeError)
          \<and> fst (getIncidentsByServiceId config sid calls) = Inl (if json r = None then SyntaxError else TypeError)
          \<and> fst (getChangeEventsByServiceId config sid calls) = Inl (if json r = None then SyntaxError else TypeError)
          \<and> fst (getOnCallByPolicyId config pid calls) = Inl (if json r = None then SyntaxError else TypeError))
       \<and> fst (triggerAlarm config a calls) = Inl (if json r = None then SyntaxError else TypeError)
       \<and> (if json r = None then SyntaxError else TypeError) \<noteq> UnauthorizedError
       \<and> (if json r = None then SyntaxError else TypeError) \<noteq> NotFoundError
       \<and> (\<forall>message. (if json r = None then SyntaxError else TypeError) \<noteq> Error message)"
proof -
  have rejected:
    "fst (request config url options calls) = Inl (if json r = None then SyntaxError else TypeError)"
    for url options
  proof (cases "json r")
    case None
    with request_undecodable [OF transport [rule_format] status] show ?thesis by simp
  next
    case (Some payload)
    with body have "errors_array payload = None" by simp
    with request_misshapen [OF transport [rule_format] status Some] Some show ?thesis by simp
  qed
  show ?thesis
    using get_helpers_rejected [OF _ rejected, of base] triggerAlarm_rejected [OF rejected]
    by simp
qed

theorem unshaped_error_body_propagates_witness:
  "fst (getIncidentsByServiceId (stub 502 None) ''def456'' []) = Inl SyntaxError
   \<and> fst (triggerAlarm (stub 502 None) (alarm None) []) = Inl SyntaxError
   \<and> fst (getIncidentsByServiceId (stub 500 (Some (JObj [(''message'', JStr ''oops'')]))) ''def456'' [])
       = Inl TypeError
   \<and> fst (triggerAlarm (stub 500 (Some (JObj [(''message'', JStr ''oops'')]))) (alarm None) [])
       = Inl TypeError"
  using unshaped_error_body_propagates
    [where config = "stub 502 None" and base = "''http://localhost:7007/api/proxy''"
       and r = "\<lparr>status = 502, json = None\<rparr>"
       and key = "''abc123''" and calls = "[]" and sid = "''def456''" and pid = "''P1''"
       and a = "alarm None"]
    unshaped_error_body_propagates
    [where config = "stub 500 (Some (JObj [(''message'', JStr ''oops'')]))"
       and base = "''http://localhost:7007/api/proxy''"
       and r = "\<lparr>status = 500, json = Some (JObj [(''message'', JStr ''oops'')])\<rparr>"
       and key = "''abc123''" and calls = "[]" and sid = "''def456''" and pid = "''P1''"
       and a = "alarm None"]
  by (simp add: stub_def ok_def errors_array_def)




end
